theory Spec2Isabelle
  imports Complex_Main
begin

section \<open>JavaScript numbers\<close>

text \<open>
  The functions of \<^verbatim>\<open>src/lib/threejs.ts\<close> compute with JavaScript numbers. A number
  is modelled as an exact real, or one of the three special values of IEEE 754 that the
  code can produce by dividing by zero: \<open>Infinity\<close>, \<open>-Infinity\<close> and \<open>NaN\<close>.
  Rounding and overflow of finite values are not modelled, and zero carries no sign: every
  zero that reaches a division in this file is a difference \<open>x - x\<close>, the literal
  \<open>0\<close> or an integer of the DOM, all of which are \<open>+0\<close>.
\<close>

datatype number = Fin real | PInf | NInf | NaN

fun isFinite :: "number \<Rightarrow> bool" where
  "isFinite (Fin a) = True"
| "isFinite PInf = False"
| "isFinite NInf = False"
| "isFinite NaN = False"

text \<open>Unary minus.\<close>

fun js_neg :: "number \<Rightarrow> number" where
  "js_neg (Fin a) = Fin (- a)"
| "js_neg PInf = NInf"
| "js_neg NInf = PInf"
| "js_neg NaN = NaN"

text \<open>Addition: opposite infinities have no sum.\<close>

fun js_add :: "number \<Rightarrow> number \<Rightarrow> number" where
  "js_add (Fin a) (Fin b) = Fin (a + b)"
| "js_add (Fin a) PInf = PInf"
| "js_add (Fin a) NInf = NInf"
| "js_add PInf (Fin b) = PInf"
| "js_add NInf (Fin b) = NInf"
| "js_add PInf PInf = PInf"
| "js_add NInf NInf = NInf"
| "js_add PInf NInf = NaN"
| "js_add NInf PInf = NaN"
| "js_add NaN b = NaN"
| "js_add a NaN = NaN"

definition js_sub :: "number \<Rightarrow> number \<Rightarrow> number" where
  "js_sub a b = js_add a (js_neg b)"

text \<open>Multiplication: zero times an infinity is \<open>NaN\<close>.\<close>

fun js_mul :: "number \<Rightarrow> number \<Rightarrow> number" where
  "js_mul (Fin a) (Fin b) = Fin (a * b)"
| "js_mul (Fin a) PInf = (if a = 0 then NaN else if 0 < a then PInf else NInf)"
| "js_mul (Fin a) NInf = (if a = 0 then NaN else if 0 < a then NInf else PInf)"
| "js_mul PInf (Fin b) = (if b = 0 then NaN else if 0 < b then PInf else NInf)"
| "js_mul NInf (Fin b) = (if b = 0 then NaN else if 0 < b then NInf else PInf)"
| "js_mul PInf PInf = PInf"
| "js_mul NInf NInf = PInf"
| "js_mul PInf NInf = NInf"
| "js_mul NInf PInf = NInf"
| "js_mul NaN b = NaN"
| "js_mul a NaN = NaN"

text \<open>
  Division: a non-zero finite number over zero is an infinity of the sign of the
  numerator, zero over zero is \<open>NaN\<close>.
\<close>

fun js_div :: "number \<Rightarrow> number \<Rightarrow> number" where
  "js_div (Fin a) (Fin b) =
     (if b = 0 then (if a = 0 then NaN else if 0 < a then PInf else NInf)
      else Fin (a / b))"
| "js_div (Fin a) PInf = Fin 0"
| "js_div (Fin a) NInf = Fin 0"
| "js_div PInf (Fin b) = (if 0 \<le> b then PInf else NInf)"
| "js_div NInf (Fin b) = (if 0 \<le> b then NInf else PInf)"
| "js_div PInf PInf = NaN"
| "js_div NInf NInf = NaN"
| "js_div PInf NInf = NaN"
| "js_div NInf PInf = NaN"
| "js_div NaN b = NaN"
| "js_div a NaN = NaN"

text \<open>The comparison \<open>a < b\<close>: false as soon as one side is \<open>NaN\<close>.\<close>

fun js_lt :: "number \<Rightarrow> number \<Rightarrow> bool" where
  "js_lt (Fin a) (Fin b) = (a < b)"
| "js_lt (Fin a) PInf = True"
| "js_lt NInf (Fin b) = True"
| "js_lt NInf PInf = True"
| "js_lt a b = False"

text \<open>\<open>Math.max\<close> and \<open>Math.min\<close> of two numbers: \<open>NaN\<close> if either is.\<close>

fun Math_max :: "number \<Rightarrow> number \<Rightarrow> number" where
  "Math_max (Fin a) (Fin b) = Fin (max a b)"
| "Math_max NaN b = NaN"
| "Math_max a NaN = NaN"
| "Math_max PInf b = PInf"
| "Math_max a PInf = PInf"
| "Math_max NInf b = b"
| "Math_max a NInf = a"

fun Math_min :: "number \<Rightarrow> number \<Rightarrow> number" where
  "Math_min (Fin a) (Fin b) = Fin (min a b)"
| "Math_min NaN b = NaN"
| "Math_min a NaN = NaN"
| "Math_min NInf b = NInf"
| "Math_min a NInf = NInf"
| "Math_min PInf b = b"
| "Math_min a PInf = a"

text \<open>\<open>Math.max(a, b, c)\<close>.\<close>

definition Math_max3 :: "number \<Rightarrow> number \<Rightarrow> number \<Rightarrow> number" where
  "Math_max3 a b c = Math_max (Math_max a b) c"

section \<open>Vectors and the scene graph\<close>

datatype 'n vec3 = Vector3 (vx: 'n) (vy: 'n) (vz: 'n)

text \<open>\<open>Vector3.setScalar\<close>.\<close>

definition setScalar :: "'n \<Rightarrow> 'n vec3" where
  "setScalar s = Vector3 s s s"

text \<open>
  A \<open>Material\<close> is known by its identity (two mesh nodes that share a material hold the
  same object). The \<open>material\<close> property of a node is a single material, an array of
  materials (elements of the declared type \<open>Material[]\<close>), or \<open>null\<close> or
  \<open>undefined\<close>, which \<open>getUniqueModelMaterials\<close> tests for.
\<close>

type_synonym material = nat

datatype material_field = Null | Undefined | Single material | Multi "material list"

text \<open>
  The own properties of a node below the loaded group, as far as this file reads or writes
  them. \<open>isMesh\<close> is the outcome of \<open>child instanceof Mesh\<close>. \<open>geometry\<close> is
  \<open>None\<close> where the object has no \<open>geometry\<close> property, and otherwise the
  vertices of its position attribute. Positions, scales and vertices of the asset are
  finite. Rotation is not modelled: every quaternion is the identity, so a local matrix is
  a scaling followed by a translation.
\<close>

record node =
  isMesh :: bool
  position :: "real vec3"
  scale :: "real vec3"
  geometry :: "real vec3 list option"
  material :: material_field
  castShadow :: bool
  receiveShadow :: bool

datatype object3d = Object3D node "object3d list"

text \<open>
  The model: the \<open>Group\<close> at the root of a loaded asset. It is no \<open>Mesh\<close>. Its
  position and scale are the properties \<open>centerAndScaleModel\<close> writes, so they are
  JavaScript numbers. The group has no parent and no rotation.
\<close>

record model =
  position :: "number vec3"
  scale :: "number vec3"
  children :: "object3d list"

section \<open>Box3\<close>

text \<open>
  A box in the frame of the group, over finite coordinates: \<open>None\<close> is the empty box,
  which three.js stores as \<open>min = +Infinity\<close>, \<open>max = -Infinity\<close>.
\<close>

type_synonym rbox = "real vec3 \<times> real vec3"

definition expandByPoint :: "rbox option \<Rightarrow> real vec3 \<Rightarrow> rbox option" where
  "expandByPoint b p =
     (case b of
        None \<Rightarrow> Some (p, p)
      | Some (lo, hi) \<Rightarrow>
          Some (Vector3 (min (vx lo) (vx p)) (min (vy lo) (vy p)) (min (vz lo) (vz p)),
                Vector3 (max (vx hi) (vx p)) (max (vy hi) (vy p)) (max (vz hi) (vz p))))"

definition setFromPoints :: "real vec3 list \<Rightarrow> rbox option" where
  "setFromPoints ps = fold (\<lambda>p b. expandByPoint b p) ps None"

text \<open>\<open>BufferGeometry.computeBoundingBox\<close>: the box of the position attribute.\<close>

definition computeBoundingBox :: "real vec3 list \<Rightarrow> rbox option" where
  "computeBoundingBox vs = setFromPoints vs"

text \<open>\<open>Box3.union\<close>.\<close>

definition union_box :: "rbox option \<Rightarrow> rbox \<Rightarrow> rbox option" where
  "union_box b c =
     (case b of
        None \<Rightarrow> Some c
      | Some (lo, hi) \<Rightarrow>
          Some (Vector3 (min (vx lo) (vx (fst c))) (min (vy lo) (vy (fst c)))
                        (min (vz lo) (vz (fst c))),
                Vector3 (max (vx hi) (vx (snd c))) (max (vy hi) (vy (snd c)))
                        (max (vz hi) (vz (snd c)))))"

text \<open>
  A matrix without rotation: the scale on each axis and the translation.
  \<open>compose\<close> is \<open>Matrix4.compose\<close> at the identity quaternion,
  \<open>multiplyMatrices\<close> the product parent times child, and \<open>applyMatrix4\<close>
  the image of a point.
\<close>

type_synonym matrix = "real vec3 \<times> real vec3"

definition identity :: matrix where
  "identity = (Vector3 1 1 1, Vector3 0 0 0)"

definition compose :: "real vec3 \<Rightarrow> real vec3 \<Rightarrow> matrix" where
  "compose p s = (s, p)"

definition applyMatrix4 :: "matrix \<Rightarrow> real vec3 \<Rightarrow> real vec3" where
  "applyMatrix4 m p =
     Vector3 (vx (fst m) * vx p + vx (snd m))
             (vy (fst m) * vy p + vy (snd m))
             (vz (fst m) * vz p + vz (snd m))"

definition multiplyMatrices :: "matrix \<Rightarrow> matrix \<Rightarrow> matrix" where
  "multiplyMatrices a b =
     (Vector3 (vx (fst a) * vx (fst b)) (vy (fst a) * vy (fst b)) (vz (fst a) * vz (fst b)),
      applyMatrix4 a (snd b))"

text \<open>\<open>Box3.applyMatrix4\<close> on a box that is not empty: the box of its eight corners.\<close>

definition applyMatrix4_box :: "rbox \<Rightarrow> matrix \<Rightarrow> rbox option" where
  "applyMatrix4_box b m =
     (let lo = fst b; hi = snd b in
      setFromPoints
        [applyMatrix4 m (Vector3 (vx lo) (vy lo) (vz lo)),
         applyMatrix4 m (Vector3 (vx lo) (vy lo) (vz hi)),
         applyMatrix4 m (Vector3 (vx lo) (vy hi) (vz lo)),
         applyMatrix4 m (Vector3 (vx lo) (vy hi) (vz hi)),
         applyMatrix4 m (Vector3 (vx hi) (vy lo) (vz lo)),
         applyMatrix4 m (Vector3 (vx hi) (vy lo) (vz hi)),
         applyMatrix4 m (Vector3 (vx hi) (vy hi) (vz lo)),
         applyMatrix4 m (Vector3 (vx hi) (vy hi) (vz hi))])"

text \<open>
  \<open>Box3.expandByObject\<close> (with \<open>precise = false\<close>) below the group: the world
  matrix of the node is its parent's times its own; the box of its geometry, if it has
  one that is not empty, is moved by that matrix and united with the box so far; then the
  children follow in order.
\<close>

fun expandByObject :: "matrix \<Rightarrow> object3d \<Rightarrow> rbox option \<Rightarrow> rbox option"
  and expandByObjects :: "matrix \<Rightarrow> object3d list \<Rightarrow> rbox option \<Rightarrow> rbox option" where
  "expandByObject parent (Object3D n cs) b =
     (let matrixWorld = multiplyMatrices parent (compose (node.position n) (node.scale n));
          b1 = (case geometry n of
                  None \<Rightarrow> b
                | Some vs \<Rightarrow>
                    (case computeBoundingBox vs of
                       None \<Rightarrow> b
                     | Some gb \<Rightarrow>
                         (case applyMatrix4_box gb matrixWorld of
                            None \<Rightarrow> b
                          | Some wb \<Rightarrow> union_box b wb)))
      in expandByObjects matrixWorld cs b1)"
| "expandByObjects parent [] b = b"
| "expandByObjects parent (c # cs) b = expandByObjects parent cs (expandByObject parent c b)"

record box3 =
  min_pt :: "number vec3"
  max_pt :: "number vec3"

definition makeEmpty :: box3 where
  "makeEmpty = \<lparr>min_pt = Vector3 PInf PInf PInf, max_pt = Vector3 NInf NInf NInf\<rparr>"

text \<open>The image of a finite coordinate under the group's own scale and position.\<close>

definition toWorld :: "number \<Rightarrow> number \<Rightarrow> real \<Rightarrow> number" where
  "toWorld s t a = js_add (js_mul s (Fin a)) t"

text \<open>
  \<open>new Box3().setFromObject(model)\<close>: the box of the model in world space, under the
  model's current position and scale. The boxes of the nodes are gathered in the frame of
  the group and the group's own matrix is applied last; on finite matrices without
  rotation, in exact arithmetic, this is the box \<open>expandByObject\<close> builds node by
  node from the world matrices. On a group whose position or scale is not finite the
  matrix products of three.js meet zero times infinity, which this shortcut leaves out; no
  theorem below rests on the box of such a group.
\<close>

definition Box3_setFromObject :: "model \<Rightarrow> box3" where
  "Box3_setFromObject m =
     (case expandByObjects identity (children m) None of
        None \<Rightarrow> makeEmpty
      | Some (lo, hi) \<Rightarrow>
          (let s = model.scale m; t = model.position m;
               ax = toWorld (vx s) (vx t) (vx lo); bx = toWorld (vx s) (vx t) (vx hi);
               ay = toWorld (vy s) (vy t) (vy lo); by = toWorld (vy s) (vy t) (vy hi);
               az = toWorld (vz s) (vz t) (vz lo); bz = toWorld (vz s) (vz t) (vz hi)
           in \<lparr>min_pt = Vector3 (Math_min ax bx) (Math_min ay by) (Math_min az bz),
               max_pt = Vector3 (Math_max ax bx) (Math_max ay by) (Math_max az bz)\<rparr>))"

definition isEmpty :: "box3 \<Rightarrow> bool" where
  "isEmpty b \<longleftrightarrow>
     js_lt (vx (max_pt b)) (vx (min_pt b)) \<or>
     js_lt (vy (max_pt b)) (vy (min_pt b)) \<or>
     js_lt (vz (max_pt b)) (vz (min_pt b))"

definition getCenter :: "box3 \<Rightarrow> number vec3" where
  "getCenter b =
     (if isEmpty b then Vector3 (Fin 0) (Fin 0) (Fin 0)
      else Vector3 (js_mul (js_add (vx (min_pt b)) (vx (max_pt b))) (Fin (1 / 2)))
                   (js_mul (js_add (vy (min_pt b)) (vy (max_pt b))) (Fin (1 / 2)))
                   (js_mul (js_add (vz (min_pt b)) (vz (max_pt b))) (Fin (1 / 2))))"

definition getSize :: "box3 \<Rightarrow> number vec3" where
  "getSize b =
     (if isEmpty b then Vector3 (Fin 0) (Fin 0) (Fin 0)
      else Vector3 (js_sub (vx (max_pt b)) (vx (min_pt b)))
                   (js_sub (vy (max_pt b)) (vy (min_pt b)))
                   (js_sub (vz (max_pt b)) (vz (min_pt b))))"

section \<open>The geometry normalizer\<close>

text \<open>
  \<open>centerAndScaleModel\<close> has no \<open>throw\<close> and calls nothing that throws: it
  returns for every model, with the scale and the position written.
\<close>

definition centerAndScaleModel :: "model \<Rightarrow> model" where
  "centerAndScaleModel m =
     (let box = Box3_setFromObject m;
          center = getCenter box;
          size = getSize box;
          maxDim = Math_max3 (vx size) (vy size) (vz size);
          s = js_div (Fin 3) maxDim
      in m\<lparr>model.scale := setScalar s,
            model.position :=
              Vector3 (js_mul (js_neg (vx center)) s)
                      (js_mul (js_neg (vy (min_pt box))) s)
                      (js_mul (js_neg (vz center)) s)\<rparr>)"

text \<open>The largest extent of the model's bounding volume.\<close>

definition maxExtent :: "model \<Rightarrow> number" where
  "maxExtent m =
     (let size = getSize (Box3_setFromObject m)
      in Math_max3 (vx size) (vy size) (vz size))"

section \<open>Traversal, shadows and materials\<close>

text \<open>
  \<open>Object3D.traverse(callback)\<close> on a node below the group: the callback runs on the
  node, then the traversal goes through the children in the order of the \<open>children\<close>
  array. The callback gets the node's own properties and hands them back as it leaves
  them, together with the state it closes over; no callback of this file touches the
  \<open>children\<close> array.
\<close>

fun traverse :: "(node \<Rightarrow> 's \<Rightarrow> node \<times> 's) \<Rightarrow> object3d \<Rightarrow> 's \<Rightarrow> object3d \<times> 's"
  and traverse_children ::
    "(node \<Rightarrow> 's \<Rightarrow> node \<times> 's) \<Rightarrow> object3d list \<Rightarrow> 's \<Rightarrow> object3d list \<times> 's" where
  "traverse callback (Object3D n cs) s =
     (case callback n s of
        (n', s1) \<Rightarrow>
          (case traverse_children callback cs s1 of
             (cs', s2) \<Rightarrow> (Object3D n' cs', s2)))"
| "traverse_children callback [] s = ([], s)"
| "traverse_children callback (c # cs) s =
     (case traverse callback c s of
        (c', s1) \<Rightarrow>
          (case traverse_children callback cs s1 of
             (cs', s2) \<Rightarrow> (c' # cs', s2)))"

text \<open>
  \<open>model.traverse(callback)\<close> on the group: the callbacks of this file act on
  instances of \<open>Mesh\<close> only, and the group is none, so the call on the group itself does
  nothing and the traversal is that of its children.
\<close>

definition traverse_model ::
    "(node \<Rightarrow> 's \<Rightarrow> node \<times> 's) \<Rightarrow> model \<Rightarrow> 's \<Rightarrow> model \<times> 's" where
  "traverse_model callback m s =
     (case traverse_children callback (children m) s of
        (cs', s') \<Rightarrow> (m\<lparr>children := cs'\<rparr>, s'))"

text \<open>The callback of \<open>enableModelShadows\<close>; it closes over no state.\<close>

definition enableShadows :: "node \<Rightarrow> unit \<Rightarrow> node \<times> unit" where
  "enableShadows child u =
     (if isMesh child then (child\<lparr>castShadow := True, receiveShadow := True\<rparr>, u)
      else (child, u))"

definition enableModelShadows :: "model \<Rightarrow> model" where
  "enableModelShadows m = fst (traverse_model enableShadows m ())"

text \<open>
  A JavaScript \<open>Set\<close> keeps its elements in the order of their first insertion:
  a list without repetition. \<open>Set_add\<close> is \<open>Set.prototype.add\<close>, and
  \<open>Array.from\<close> of a set is the list itself.
\<close>

definition Set_add :: "'a list \<Rightarrow> 'a \<Rightarrow> 'a list" where
  "Set_add s a = (if a \<in> set s then s else s @ [a])"

text \<open>Truthiness of the \<open>material\<close> property: an object or an array is truthy.\<close>

fun truthy :: "material_field \<Rightarrow> bool" where
  "truthy Null = False"
| "truthy Undefined = False"
| "truthy (Single mat) = True"
| "truthy (Multi mats) = True"

text \<open>The callback of \<open>getUniqueModelMaterials\<close>; it closes over the set \<open>materials\<close>.\<close>

definition collectMaterials :: "node \<Rightarrow> material list \<Rightarrow> node \<times> material list" where
  "collectMaterials child materials =
     (if isMesh child \<and> truthy (material child) then
        (case material child of
           Multi mats \<Rightarrow> (child, fold (\<lambda>mat s. Set_add s mat) mats materials)
         | Single mat \<Rightarrow> (child, Set_add materials mat)
         | _ \<Rightarrow> (child, materials))
      else (child, materials))"

text \<open>
  \<open>getUniqueModelMaterials\<close> returns the array; the second component is the model
  as the call leaves it.
\<close>

definition getUniqueModelMaterials :: "model \<Rightarrow> material list \<times> model" where
  "getUniqueModelMaterials m =
     (case traverse_model collectMaterials m [] of
        (m', materials) \<Rightarrow> (materials, m'))"

subsection \<open>What the specification says of the material collector\<close>

text \<open>
  The nodes of a model in depth-first order, parent before children, children in
  declaration order.
\<close>

fun preorder :: "object3d \<Rightarrow> node list" where
  "preorder (Object3D n cs) = n # concat (map preorder cs)"

definition nodes :: "model \<Rightarrow> node list" where
  "nodes m = concat (map preorder (children m))"

text \<open>The material instances a node references, if it is a mesh node.\<close>

definition nodeMaterials :: "node \<Rightarrow> material list" where
  "nodeMaterials n =
     (if isMesh n then
        (case material n of
           Single mat \<Rightarrow> [mat]
         | Multi mats \<Rightarrow> mats
         | _ \<Rightarrow> [])
      else [])"

definition referencedMaterials :: "model \<Rightarrow> material list" where
  "referencedMaterials m = concat (map nodeMaterials (nodes m))"

text \<open>A sequence cut down to the first occurrence of each element.\<close>

fun firstOccurrences :: "'a list \<Rightarrow> 'a list" where
  "firstOccurrences [] = []"
| "firstOccurrences (a # as) = a # removeAll a (firstOccurrences as)"

subsection \<open>What the specification says of the shadow configurator\<close>

text \<open>
  A hierarchy with both shadow flags set on every mesh node and nothing else changed: the
  same nodes in the same places, every other property as it was.
\<close>

fun withShadows :: "object3d \<Rightarrow> object3d" where
  "withShadows (Object3D n cs) =
     Object3D (if isMesh n then n\<lparr>castShadow := True, receiveShadow := True\<rparr> else n)
       (map withShadows cs)"

section \<open>The camera\<close>

text \<open>
  The mount node: \<open>clientWidth\<close> and \<open>clientHeight\<close> of an element are integers
  that are never negative.
\<close>

record mount_node =
  clientWidth :: nat
  clientHeight :: nat

record perspective_camera =
  fov :: number
  aspect :: number
  near :: number
  far :: number
  position :: "number vec3"

text \<open>
  \<open>initCamera\<close> has no \<open>throw\<close>, and the constructor of \<open>PerspectiveCamera\<close>
  stores its four arguments without a check: the function returns a camera for every
  mount node.
\<close>

definition initCamera :: "mount_node \<Rightarrow> perspective_camera" where
  "initCamera mountNode =
     \<lparr>fov = Fin 75,
      aspect = js_div (Fin (real (clientWidth mountNode))) (Fin (real (clientHeight mountNode))),
      near = Fin (1 / 10),
      far = Fin 1000,
      position = Vector3 (Fin 5) (Fin 3) (Fin 5)\<rparr>"

section \<open>The environment and the loaders\<close>

datatype mapping = UVMapping | EquirectangularReflectionMapping

text \<open>A texture: the decoded image it holds, by identity, and its mapping.\<close>

record texture =
  image_id :: nat
  mapping :: mapping

datatype background = BackgroundTexture texture | BackgroundColor nat

record scene =
  environment :: "texture option"
  background :: "background option"
  backgroundBlurriness :: number

text \<open>
  \<open>setSceneEnvironment\<close> writes the mapping of the texture and three properties of the
  scene; it returns the texture and the scene as it leaves them.
\<close>

definition setSceneEnvironment ::
    "scene \<Rightarrow> texture \<Rightarrow> number \<Rightarrow> bool \<Rightarrow> texture \<times> scene" where
  "setSceneEnvironment sc tex blurriness useSkybox =
     (let tex' = tex\<lparr>mapping := EquirectangularReflectionMapping\<rparr>
      in (tex',
          sc\<lparr>environment := Some tex',
             background := Some (if useSkybox then BackgroundTexture tex'
                                 else BackgroundColor 0xffffff),
             backgroundBlurriness := blurriness\<rparr>))"

text \<open>The argument \<open>file: string | File\<close>; a \<open>File\<close> is known by its identity.\<close>

type_synonym file_id = nat

datatype file_arg = UrlString string | FileObject file_id

text \<open>A rejection carries the reason the loader gave.\<close>

datatype error = Error string

datatype log_entry = HDRError file_arg error | GLTFError error

text \<open>
  The state the loaders act on: the scene, the object URLs created and those revoked so
  far, each in the order of the calls, and the lines of \<open>console.error\<close>.
\<close>

record browser =
  scene :: scene
  created :: "string list"
  revoked :: "string list"
  console :: "log_entry list"

text \<open>
  \<open>URL.createObjectURL\<close> returns a new string \<open>blob:...\<close> at every call. The
  unique part of the string, a UUID in a browser, is modelled by the number of URLs created
  before, written in unary.
\<close>

definition blobURL :: "nat \<Rightarrow> string" where
  "blobURL k = ''blob:'' @ replicate k (CHR ''u'')"

definition URL_createObjectURL :: "file_id \<Rightarrow> browser \<Rightarrow> string \<times> browser" where
  "URL_createObjectURL f st =
     (let url = blobURL (length (created st))
      in (url, st\<lparr>created := created st @ [url]\<rparr>))"

definition URL_revokeObjectURL :: "string \<Rightarrow> browser \<Rightarrow> browser" where
  "URL_revokeObjectURL url st = st\<lparr>revoked := revoked st @ [url]\<rparr>"

text \<open>
  \<open>setupEnvironment\<close> is an \<open>async\<close> function with one \<open>await\<close>. Its body up to
  the \<open>await\<close> runs at the call: \<open>setupEnvironment_begin\<close> yields the URL handed to
  \<open>rgbeLoader.loadAsync\<close>. The rest runs when the promise of the loader settles, with
  a texture (\<open>Inr\<close>) or a rejection (\<open>Inl\<close>): \<open>setupEnvironment_resume\<close> is the
  end of the \<open>try\<close> block or the \<open>catch\<close> block, followed by the \<open>finally\<close>
  block. Its result is what the promise of \<open>setupEnvironment\<close> settles with: the
  texture, or the error thrown again.
\<close>

definition setupEnvironment_begin :: "file_arg \<Rightarrow> browser \<Rightarrow> string \<times> browser" where
  "setupEnvironment_begin file st =
     (case file of
        UrlString s \<Rightarrow> (s, st)
      | FileObject f \<Rightarrow> URL_createObjectURL f st)"

definition isString :: "file_arg \<Rightarrow> bool" where
  "isString file = (case file of UrlString s \<Rightarrow> True | FileObject f \<Rightarrow> False)"

definition setupEnvironment_resume ::
    "file_arg \<Rightarrow> string \<Rightarrow> number \<Rightarrow> bool \<Rightarrow> error + texture \<Rightarrow> browser
       \<Rightarrow> (error + texture) \<times> browser" where
  "setupEnvironment_resume file url blurriness useSkybox settled st =
     (let (result, st1) =
            (case settled of
               Inr tex \<Rightarrow>
                 (case setSceneEnvironment (scene st) tex blurriness useSkybox of
                    (tex', sc') \<Rightarrow> (Inr tex', st\<lparr>scene := sc'\<rparr>))
             | Inl err \<Rightarrow> (Inl err, st\<lparr>console := console st @ [HDRError file err]\<rparr>));
          st2 = (if \<not> isString file \<and> url \<noteq> [] then URL_revokeObjectURL url st1 else st1)
      in (result, st2))"

text \<open>
  A call of \<open>setupEnvironment\<close> with nothing else running before its promise settles;
  \<open>loadAsync\<close> tells how the loader settles for a URL.
\<close>

definition setupEnvironment ::
    "file_arg \<Rightarrow> number \<Rightarrow> bool \<Rightarrow> (string \<Rightarrow> error + texture) \<Rightarrow> browser
       \<Rightarrow> (error + texture) \<times> browser" where
  "setupEnvironment file blurriness useSkybox loadAsync st =
     (case setupEnvironment_begin file st of
        (url, st1) \<Rightarrow>
          setupEnvironment_resume file url blurriness useSkybox (loadAsync url) st1)"

text \<open>\<open>loadGLTFModel\<close>, for any type of decoded asset.\<close>

definition loadGLTFModel ::
    "file_id \<Rightarrow> (string \<Rightarrow> error + 'g) \<Rightarrow> browser \<Rightarrow> (error + 'g) \<times> browser" where
  "loadGLTFModel f loadAsync st =
     (case URL_createObjectURL f st of
        (url, st1) \<Rightarrow>
          (let (result, st2) =
                 (case loadAsync url of
                    Inr gltf \<Rightarrow> (Inr gltf, st1)
                  | Inl err \<Rightarrow> (Inl err, st1\<lparr>console := console st1 @ [GLTFError err]\<rparr>))
           in (result, URL_revokeObjectURL url st2)))"

subsection \<open>Loads in flight together\<close>

text \<open>
  JavaScript runs one piece of code at a time, to its end. Two calls of
  \<open>setupEnvironment\<close> overlap when the second is made while the first waits at its
  \<open>await\<close>. A call in flight is what its continuation holds: the arguments and the URL.
  An event is a call, under a name for the load, or the settling of the loader's promise
  for a load in flight.
\<close>

record suspended =
  s_file :: file_arg
  s_url :: string
  s_blurriness :: number
  s_useSkybox :: bool

datatype event = Call nat file_arg number bool | Settle nat "error + texture"

record event_loop =
  state :: browser
  in_flight :: "nat \<Rightarrow> suspended option"

definition step :: "event \<Rightarrow> event_loop \<Rightarrow> event_loop" where
  "step ev l =
     (case ev of
        Call i file blurriness useSkybox \<Rightarrow>
          (case setupEnvironment_begin file (state l) of
             (url, st1) \<Rightarrow>
               l\<lparr>state := st1,
                 in_flight := (in_flight l)
                   (i := Some \<lparr>s_file = file, s_url = url, s_blurriness = blurriness,
                               s_useSkybox = useSkybox\<rparr>)\<rparr>)
      | Settle i settled \<Rightarrow>
          (case in_flight l i of
             None \<Rightarrow> l
           | Some c \<Rightarrow>
               l\<lparr>state := snd (setupEnvironment_resume (s_file c) (s_url c) (s_blurriness c)
                                  (s_useSkybox c) settled (state l)),
                 in_flight := (in_flight l)(i := None)\<rparr>))"

definition run :: "event list \<Rightarrow> event_loop \<Rightarrow> event_loop" where
  "run evs l = fold step evs l"

text \<open>A browser with nothing in flight.\<close>

definition idle :: "browser \<Rightarrow> event_loop" where
  "idle st = \<lparr>state = st, in_flight = (\<lambda>i. None)\<rparr>"

text \<open>The URLs a load made from an argument holds as temporary handles.\<close>

definition handles :: "file_arg \<Rightarrow> string \<Rightarrow> string list" where
  "handles file url = (if isString file then [] else [url])"

text \<open>
  The URLs handed to the loader by a first call and by a second call made right after it.
\<close>

definition firstURL :: "file_arg \<Rightarrow> browser \<Rightarrow> string" where
  "firstURL a st = fst (setupEnvironment_begin a st)"

definition secondURL :: "file_arg \<Rightarrow> file_arg \<Rightarrow> browser \<Rightarrow> string" where
  "secondURL a b st = fst (setupEnvironment_begin b (snd (setupEnvironment_begin a st)))"

section \<open>Example inputs\<close>

text \<open>A group and a mesh as a loader makes them: at the origin, at scale one.\<close>

definition plainNode :: node where
  "plainNode =
     \<lparr>isMesh = False, position = Vector3 0 0 0, scale = Vector3 1 1 1, geometry = None,
      material = Undefined, castShadow = False, receiveShadow = False\<rparr>"

definition meshNode :: "real vec3 list \<Rightarrow> material_field \<Rightarrow> node" where
  "meshNode vs mat =
     \<lparr>isMesh = True, position = Vector3 0 0 0, scale = Vector3 1 1 1, geometry = Some vs,
      material = mat, castShadow = False, receiveShadow = False\<rparr>"

definition freshModel :: "object3d list \<Rightarrow> model" where
  "freshModel cs =
     \<lparr>model.position = Vector3 (Fin 0) (Fin 0) (Fin 0), scale = Vector3 (Fin 1) (Fin 1) (Fin 1),
      children = cs\<rparr>"

text \<open>A model of one mesh with a single vertex, and a model with no node at all.\<close>

definition singlePoint :: model where
  "singlePoint = freshModel [Object3D (meshNode [Vector3 0 0 0] (Single 1)) []]"

definition emptyModel :: model where
  "emptyModel = freshModel []"

text \<open>A cube of side 6 with a corner at the origin.\<close>

definition cube6 :: model where
  "cube6 = freshModel [Object3D (meshNode [Vector3 0 0 0, Vector3 6 6 6] (Single 1)) []]"

text \<open>A cube of side 1 in a group whose scale is already 2.\<close>

definition prescaled :: model where
  "prescaled =
     \<lparr>model.position = Vector3 (Fin 0) (Fin 0) (Fin 0), scale = Vector3 (Fin 2) (Fin 2) (Fin 2),
      children = [Object3D (meshNode [Vector3 0 0 0, Vector3 1 1 1] (Single 1)) []]\<rparr>"

text \<open>
  A model of five nodes: a group holding a mesh with material 7, a mesh with no material
  that holds a mesh with the materials 9, 7 and 4; then a mesh with material 9.
\<close>

definition fiveNodes :: model where
  "fiveNodes =
     freshModel
       [Object3D plainNode
          [Object3D (meshNode [] (Single 7)) [],
           Object3D (meshNode [] Null) [Object3D (meshNode [] (Multi [9, 7, 4])) []]],
        Object3D (meshNode [] (Single 9)) []]"

text \<open>A browser whose scene shows the environment of image 5, with nothing created.\<close>

definition litScene :: scene where
  "litScene =
     \<lparr>environment = Some \<lparr>image_id = 5, mapping = EquirectangularReflectionMapping\<rparr>,
      background = Some (BackgroundColor 0xffffff),
      backgroundBlurriness = Fin (1 / 4)\<rparr>"

definition litBrowser :: browser where
  "litBrowser = \<lparr>scene = litScene, created = [], revoked = [], console = []\<rparr>"

text \<open>A loader that rejects whatever the URL.\<close>

definition corruptHDR :: "string \<Rightarrow> error + texture" where
  "corruptHDR url = Inl (Error ''corrupt'')"

section \<open>Properties of the geometry normalizer\<close>

lemma not_finite_mul_PInf: "\<not> isFinite (js_mul c PInf)"
  by (cases c) auto

lemma getSize_finite:
  assumes "l1 \<le> h1" "l2 \<le> h2" "l3 \<le> h3"
  shows "getSize \<lparr>min_pt = Vector3 (Fin l1) (Fin l2) (Fin l3),
                  max_pt = Vector3 (Fin h1) (Fin h2) (Fin h3)\<rparr>
         = Vector3 (Fin (h1 - l1)) (Fin (h2 - l2)) (Fin (h3 - l3))"
  using assms by (simp add: getSize_def isEmpty_def js_sub_def)

lemma getCenter_finite:
  assumes "l1 \<le> h1" "l2 \<le> h2" "l3 \<le> h3"
  shows "getCenter \<lparr>min_pt = Vector3 (Fin l1) (Fin l2) (Fin l3),
                    max_pt = Vector3 (Fin h1) (Fin h2) (Fin h3)\<rparr>
         = Vector3 (Fin ((l1 + h1) / 2)) (Fin ((l2 + h2) / 2)) (Fin ((l3 + h3) / 2))"
  using assms by (simp add: getCenter_def isEmpty_def)

lemma min_affine: "0 < k \<Longrightarrow> min (k * a + t) (k * b + t) = k * min a b + (t::real)"
  by (simp add: min_def)

lemma max_affine: "0 < k \<Longrightarrow> max (k * a + t) (k * b + t) = k * max a b + (t::real)"
  by (simp add: max_def)

lemma max3_scale:
  "0 < k \<Longrightarrow> max (max (k * d1) (k * d2)) (k * d3) = k * max (max d1 d2) (d3::real)"
  by (simp add: max_def)

text \<open>The box of a model under a finite, uniform, positive scale.\<close>

lemma Box3_finite:
  assumes "expandByObjects identity (children m) None
             = Some (Vector3 a1 a2 a3, Vector3 b1 b2 b3)"
    and "model.scale m = Vector3 (Fin k) (Fin k) (Fin k)"
    and "model.position m = Vector3 (Fin t1) (Fin t2) (Fin t3)"
    and "0 < k"
  shows "Box3_setFromObject m =
           \<lparr>min_pt = Vector3 (Fin (k * min a1 b1 + t1)) (Fin (k * min a2 b2 + t2))
                             (Fin (k * min a3 b3 + t3)),
            max_pt = Vector3 (Fin (k * max a1 b1 + t1)) (Fin (k * max a2 b2 + t2))
                             (Fin (k * max a3 b3 + t3))\<rparr>"
  using assms by (simp add: Box3_setFromObject_def toWorld_def min_affine max_affine)

lemma maxExtent_empty:
  assumes "expandByObjects identity (children m) None = None"
  shows "maxExtent m = Fin 0"
  using assms
  by (simp add: maxExtent_def Box3_setFromObject_def makeEmpty_def getSize_def isEmpty_def
      Math_max3_def)

text \<open>The boxes of the example models.\<close>

lemmas box_defs =
  Box3_setFromObject_def identity_def compose_def multiplyMatrices_def applyMatrix4_def
  applyMatrix4_box_def setFromPoints_def computeBoundingBox_def expandByPoint_def
  union_box_def toWorld_def makeEmpty_def freshModel_def meshNode_def

lemmas normalizer_defs =
  centerAndScaleModel_def getCenter_def getSize_def isEmpty_def Math_max3_def js_sub_def
  setScalar_def maxExtent_def Let_def

lemma box_singlePoint:
  "Box3_setFromObject singlePoint =
     \<lparr>min_pt = Vector3 (Fin 0) (Fin 0) (Fin 0), max_pt = Vector3 (Fin 0) (Fin 0) (Fin 0)\<rparr>"
  by (simp add: singlePoint_def box_defs)

lemma box_emptyModel: "Box3_setFromObject emptyModel = makeEmpty"
  by (simp add: emptyModel_def freshModel_def Box3_setFromObject_def)

lemma box_cube6:
  "Box3_setFromObject cube6 =
     \<lparr>min_pt = Vector3 (Fin 0) (Fin 0) (Fin 0), max_pt = Vector3 (Fin 6) (Fin 6) (Fin 6)\<rparr>"
  by (simp add: cube6_def box_defs)

lemma box_prescaled:
  "Box3_setFromObject prescaled =
     \<lparr>min_pt = Vector3 (Fin 0) (Fin 0) (Fin 0), max_pt = Vector3 (Fin 2) (Fin 2) (Fin 2)\<rparr>"
  by (simp add: prescaled_def box_defs)

lemma once_cube6:
  "centerAndScaleModel cube6 =
     cube6\<lparr>model.scale := Vector3 (Fin (1 / 2)) (Fin (1 / 2)) (Fin (1 / 2)),
           model.position := Vector3 (Fin (- 3 / 2)) (Fin 0) (Fin (- 3 / 2))\<rparr>"
  by (simp add: normalizer_defs box_cube6)

lemma once_prescaled:
  "centerAndScaleModel prescaled =
     prescaled\<lparr>model.scale := Vector3 (Fin (3 / 2)) (Fin (3 / 2)) (Fin (3 / 2)),
               model.position := Vector3 (Fin (- 3 / 2)) (Fin 0) (Fin (- 3 / 2))\<rparr>"
  by (simp add: normalizer_defs box_prescaled)

lemma box_once_prescaled:
  "Box3_setFromObject (centerAndScaleModel prescaled) =
     \<lparr>min_pt = Vector3 (Fin (- 3 / 2)) (Fin 0) (Fin (- 3 / 2)),
      max_pt = Vector3 (Fin 0) (Fin (3 / 2)) (Fin 0)\<rparr>"
  by (simp add: once_prescaled) (simp add: prescaled_def box_defs)

text \<open>
  Claim C1, as the code has it. \<open>centerAndScaleModel\<close> has no failing branch. For every
  model whose bounding volume has zero extent on all three axes (a single point or an empty
  model), it returns with the scale \<open>Infinity\<close> written on all three axes and a value
  that is not finite (\<open>NaN\<close> or an infinity) written in every component of the
  position.
\<close>

theorem centerAndScaleModel_zero_extent:
  assumes "getSize (Box3_setFromObject m) = Vector3 (Fin 0) (Fin 0) (Fin 0)"
  shows "model.scale (centerAndScaleModel m) = Vector3 PInf PInf PInf \<and>
         \<not> isFinite (vx (model.position (centerAndScaleModel m))) \<and>
         \<not> isFinite (vy (model.position (centerAndScaleModel m))) \<and>
         \<not> isFinite (vz (model.position (centerAndScaleModel m)))"
  using assms
  by (simp add: centerAndScaleModel_def Let_def Math_max3_def setScalar_def not_finite_mul_PInf)

text \<open>The empty model has zero extent, and the theorem applies to it.\<close>

theorem centerAndScaleModel_zero_extent_witness:
  "getSize (Box3_setFromObject emptyModel) = Vector3 (Fin 0) (Fin 0) (Fin 0) \<and>
   model.scale (centerAndScaleModel emptyModel) = Vector3 PInf PInf PInf \<and>
   \<not> isFinite (vx (model.position (centerAndScaleModel emptyModel))) \<and>
   \<not> isFinite (vy (model.position (centerAndScaleModel emptyModel))) \<and>
   \<not> isFinite (vz (model.position (centerAndScaleModel emptyModel)))"
proof -
  have h: "getSize (Box3_setFromObject emptyModel) = Vector3 (Fin 0) (Fin 0) (Fin 0)"
    by (simp add: box_emptyModel makeEmpty_def getSize_def isEmpty_def)
  show ?thesis
    using h centerAndScaleModel_zero_extent [OF h] by simp
qed

text \<open>
  Claim C1 as stated fails: on the model of a single vertex the call returns, and it has
  written the scale \<open>Infinity\<close> and the position \<open>NaN\<close>.
\<close>

theorem centerAndScaleModel_single_point_counterexample:
  "model.scale (centerAndScaleModel singlePoint) = Vector3 PInf PInf PInf \<and>
   model.position (centerAndScaleModel singlePoint) = Vector3 NaN NaN NaN"
  by (simp add: normalizer_defs box_singlePoint)

text \<open>
  The first call on a model as the loader hands it over: the box of the result, which
  keeps the children of the model.
\<close>

lemma fresh_model_once:
  assumes pos: "model.position m = Vector3 (Fin 0) (Fin 0) (Fin 0)"
    and sc: "model.scale m = Vector3 (Fin 1) (Fin 1) (Fin 1)"
    and nd: "js_lt (Fin 0) (maxExtent m)"
  shows "\<exists>l1 l2 l3 h1 h2 h3.
           l1 \<le> h1 \<and> l2 \<le> h2 \<and> l3 \<le> h3 \<and>
           max (max (h1 - l1) (h2 - l2)) (h3 - l3) = 3 \<and>
           l1 + h1 = 0 \<and> l2 = 0 \<and> l3 + h3 = 0 \<and>
           Box3_setFromObject (centerAndScaleModel m) =
             \<lparr>min_pt = Vector3 (Fin l1) (Fin l2) (Fin l3),
              max_pt = Vector3 (Fin h1) (Fin h2) (Fin h3)\<rparr>"
proof (cases "expandByObjects identity (children m) None")
  case None
  with nd show ?thesis by (simp add: maxExtent_empty)
next
  case (Some b)
  obtain a1 a2 a3 b1 b2 b3 where b: "b = (Vector3 a1 a2 a3, Vector3 b1 b2 b3)"
    by (metis surj_pair vec3.exhaust)
  let ?l1 = "min a1 b1" and ?l2 = "min a2 b2" and ?l3 = "min a3 b3"
  let ?h1 = "max a1 b1" and ?h2 = "max a2 b2" and ?h3 = "max a3 b3"
  define M where "M = max (max (?h1 - ?l1) (?h2 - ?l2)) (?h3 - ?l3)"
  define k where "k = 3 / M"
  have ex: "expandByObjects identity (children m) None
              = Some (Vector3 a1 a2 a3, Vector3 b1 b2 b3)"
    using Some b by simp
  have box: "Box3_setFromObject m =
      \<lparr>min_pt = Vector3 (Fin ?l1) (Fin ?l2) (Fin ?l3),
       max_pt = Vector3 (Fin ?h1) (Fin ?h2) (Fin ?h3)\<rparr>"
    using Box3_finite [OF ex sc pos] by simp
  have size: "getSize (Box3_setFromObject m)
                = Vector3 (Fin (?h1 - ?l1)) (Fin (?h2 - ?l2)) (Fin (?h3 - ?l3))"
    by (simp add: box getSize_finite)
  have center: "getCenter (Box3_setFromObject m)
                  = Vector3 (Fin ((?l1 + ?h1) / 2)) (Fin ((?l2 + ?h2) / 2))
                            (Fin ((?l3 + ?h3) / 2))"
    by (simp add: box getCenter_finite)
  have "maxExtent m = Fin M"
    by (simp add: maxExtent_def size Math_max3_def M_def)
  with nd have M: "0 < M" by simp
  then have k: "0 < k" by (simp add: k_def)
  have kM: "k * M = 3" using M by (simp add: k_def)
  define t1 where "t1 = - ((?l1 + ?h1) / 2) * k"
  define t2 where "t2 = - ?l2 * k"
  define t3 where "t3 = - ((?l3 + ?h3) / 2) * k"
  let ?m' = "centerAndScaleModel m"
  have res: "?m' = m\<lparr>model.scale := Vector3 (Fin k) (Fin k) (Fin k),
                      model.position := Vector3 (Fin t1) (Fin t2) (Fin t3)\<rparr>"
    unfolding centerAndScaleModel_def Let_def size center
    using M
    by (simp add: box Math_max3_def M_def [symmetric] setScalar_def k_def t1_def t2_def t3_def)
  have ex': "expandByObjects identity (children ?m') None
               = Some (Vector3 a1 a2 a3, Vector3 b1 b2 b3)"
    by (simp add: res ex)
  have box': "Box3_setFromObject ?m' =
      \<lparr>min_pt = Vector3 (Fin (k * ?l1 + t1)) (Fin (k * ?l2 + t2)) (Fin (k * ?l3 + t3)),
       max_pt = Vector3 (Fin (k * ?h1 + t1)) (Fin (k * ?h2 + t2)) (Fin (k * ?h3 + t3))\<rparr>"
    using Box3_finite [OF ex' _ _ k, of t1 t2 t3] by (simp add: res)
  have le: "k * ?l1 + t1 \<le> k * ?h1 + t1" "k * ?l2 + t2 \<le> k * ?h2 + t2"
    "k * ?l3 + t3 \<le> k * ?h3 + t3"
    using k by simp_all
  have "max (max (k * ?h1 + t1 - (k * ?l1 + t1)) (k * ?h2 + t2 - (k * ?l2 + t2)))
            (k * ?h3 + t3 - (k * ?l3 + t3))
          = max (max (k * (?h1 - ?l1)) (k * (?h2 - ?l2))) (k * (?h3 - ?l3))"
    by (simp add: algebra_simps)
  also have "\<dots> = k * M"
    unfolding M_def using k by (rule max3_scale)
  finally have ext: "max (max (k * ?h1 + t1 - (k * ?l1 + t1)) (k * ?h2 + t2 - (k * ?l2 + t2)))
            (k * ?h3 + t3 - (k * ?l3 + t3)) = 3"
    by (simp add: kM)
  have c1: "k * ?l1 + t1 + (k * ?h1 + t1) = 0"
    by (simp add: t1_def algebra_simps)
  have c2: "k * ?l2 + t2 = 0"
    by (simp add: t2_def)
  have c3: "k * ?l3 + t3 + (k * ?h3 + t3) = 0"
    by (simp add: t3_def algebra_simps)
  from le ext c1 c2 c3 box' show ?thesis by blast
qed

text \<open>
  In the exact arithmetic of this file, the first call on a model as the loader hands it
  over, with a bounding volume that is not degenerate, leaves a bounding volume of largest
  extent 3 that rests on \<open>y = 0\<close> and is centered on the \<open>x\<close> and the \<open>z\<close>
  axis. The numbers of the code are doubles: there the same holds up to rounding, and only
  as long as \<open>3 / maxDim\<close> does not overflow.
\<close>

lemma fresh_model_normalized:
  assumes pos: "model.position m = Vector3 (Fin 0) (Fin 0) (Fin 0)"
    and sc: "model.scale m = Vector3 (Fin 1) (Fin 1) (Fin 1)"
    and nd: "js_lt (Fin 0) (maxExtent m)"
  shows "maxExtent (centerAndScaleModel m) = Fin 3 \<and>
         vy (min_pt (Box3_setFromObject (centerAndScaleModel m))) = Fin 0 \<and>
         vx (getCenter (Box3_setFromObject (centerAndScaleModel m))) = Fin 0 \<and>
         vz (getCenter (Box3_setFromObject (centerAndScaleModel m))) = Fin 0"
proof -
  from fresh_model_once [OF pos sc nd]
  obtain l1 l2 l3 h1 h2 h3 where
    le: "l1 \<le> h1" "l2 \<le> h2" "l3 \<le> h3"
    and ext: "max (max (h1 - l1) (h2 - l2)) (h3 - l3) = 3"
    and mid: "l1 + h1 = 0" "l2 = 0" "l3 + h3 = 0"
    and box: "Box3_setFromObject (centerAndScaleModel m) =
             \<lparr>min_pt = Vector3 (Fin l1) (Fin l2) (Fin l3),
              max_pt = Vector3 (Fin h1) (Fin h2) (Fin h3)\<rparr>"
    by blast
  have "maxExtent (centerAndScaleModel m) = Fin 3"
    unfolding maxExtent_def box Let_def using le ext
    by (simp add: getSize_finite Math_max3_def)
  moreover have "vy (min_pt (Box3_setFromObject (centerAndScaleModel m))) = Fin 0"
    by (simp add: box mid)
  moreover have "vx (getCenter (Box3_setFromObject (centerAndScaleModel m))) = Fin 0"
    unfolding box using le mid by (simp add: getCenter_finite)
  moreover have "vz (getCenter (Box3_setFromObject (centerAndScaleModel m))) = Fin 0"
    unfolding box using le mid by (simp add: getCenter_finite)
  ultimately show ?thesis by simp
qed

text \<open>
  Claim C2 fails on the code. The cube of side 1 in a group whose scale is already 2 has a
  bounding volume from (0, 0, 0) to (2, 2, 2), of largest extent 2, which is not degenerate.
  \<open>centerAndScaleModel\<close> measures that volume, under the scale 2, and writes the scale
  3/2 and the position (-3/2, 0, -3/2) over it. The bounding volume of the result goes from
  (-3/2, 0, -3/2) to (0, 3/2, 0): it rests on \<open>y = 0\<close>, but its largest extent is 3/2,
  not 3, and its center is at -3/4 on the \<open>x\<close> and the \<open>z\<close> axis, not at 0. The
  model neither fits the box of 3 units nor is it centered, as the comment of the function
  says it is. Every number here is a double without rounding.
\<close>

theorem centerAndScaleModel_prescaled:
  "Box3_setFromObject prescaled =
     \<lparr>min_pt = Vector3 (Fin 0) (Fin 0) (Fin 0), max_pt = Vector3 (Fin 2) (Fin 2) (Fin 2)\<rparr> \<and>
   maxExtent prescaled = Fin 2 \<and>
   model.scale (centerAndScaleModel prescaled)
     = Vector3 (Fin (3 / 2)) (Fin (3 / 2)) (Fin (3 / 2)) \<and>
   model.position (centerAndScaleModel prescaled)
     = Vector3 (Fin (- 3 / 2)) (Fin 0) (Fin (- 3 / 2)) \<and>
   Box3_setFromObject (centerAndScaleModel prescaled) =
     \<lparr>min_pt = Vector3 (Fin (- 3 / 2)) (Fin 0) (Fin (- 3 / 2)),
      max_pt = Vector3 (Fin 0) (Fin (3 / 2)) (Fin 0)\<rparr> \<and>
   maxExtent (centerAndScaleModel prescaled) = Fin (3 / 2) \<and>
   vy (min_pt (Box3_setFromObject (centerAndScaleModel prescaled))) = Fin 0 \<and>
   vx (getCenter (Box3_setFromObject (centerAndScaleModel prescaled))) = Fin (- 3 / 4) \<and>
   vz (getCenter (Box3_setFromObject (centerAndScaleModel prescaled))) = Fin (- 3 / 4)"
  by (simp add: maxExtent_def box_prescaled box_once_prescaled getSize_def getCenter_def
      isEmpty_def js_sub_def Math_max3_def)
     (simp add: once_prescaled)

text \<open>
  Claim C3 fails on the code. The second call measures the bounding volume under the scale
  and the position the first call wrote, finds the largest extent 3 and a volume that is
  centered and rests on the floor, and so writes the scale 3/3 = 1 and the position 0. For
  every model as the loader hands it over, with a bounding volume that is not degenerate,
  the second call gives back the model as it was loaded: it undoes the first.
\<close>

theorem centerAndScaleModel_twice:
  assumes pos: "model.position m = Vector3 (Fin 0) (Fin 0) (Fin 0)"
    and sc: "model.scale m = Vector3 (Fin 1) (Fin 1) (Fin 1)"
    and nd: "js_lt (Fin 0) (maxExtent m)"
  shows "centerAndScaleModel (centerAndScaleModel m) = m"
proof -
  from fresh_model_once [OF pos sc nd]
  obtain l1 l2 l3 h1 h2 h3 where
    le: "l1 \<le> h1" "l2 \<le> h2" "l3 \<le> h3"
    and ext: "max (max (h1 - l1) (h2 - l2)) (h3 - l3) = 3"
    and mid: "l1 + h1 = 0" "l2 = 0" "l3 + h3 = 0"
    and box: "Box3_setFromObject (centerAndScaleModel m) =
             \<lparr>min_pt = Vector3 (Fin l1) (Fin l2) (Fin l3),
              max_pt = Vector3 (Fin h1) (Fin h2) (Fin h3)\<rparr>"
    by blast
  let ?m' = "centerAndScaleModel m"
  have "centerAndScaleModel ?m' =
      ?m'\<lparr>model.scale := Vector3 (Fin 1) (Fin 1) (Fin 1),
           model.position := Vector3 (Fin 0) (Fin 0) (Fin 0)\<rparr>"
    unfolding centerAndScaleModel_def [of ?m'] box Let_def
    using le ext mid by (simp add: getSize_finite getCenter_finite Math_max3_def setScalar_def)
  also have "\<dots> = m\<lparr>model.scale := model.scale m, model.position := model.position m\<rparr>"
    by (simp add: centerAndScaleModel_def Let_def pos sc)
  finally show ?thesis by simp
qed

text \<open>
  The cube of side 6 is such a model. The first call gives it the scale 1/2 and the position
  (-3/2, 0, -3/2); the second call gives back the cube as loaded, at the scale 1, with the
  largest extent 6.
\<close>

theorem centerAndScaleModel_twice_witness:
  "model.position cube6 = Vector3 (Fin 0) (Fin 0) (Fin 0) \<and>
   model.scale cube6 = Vector3 (Fin 1) (Fin 1) (Fin 1) \<and>
   js_lt (Fin 0) (maxExtent cube6) \<and>
   model.scale (centerAndScaleModel cube6) = Vector3 (Fin (1 / 2)) (Fin (1 / 2)) (Fin (1 / 2)) \<and>
   model.position (centerAndScaleModel cube6) = Vector3 (Fin (- 3 / 2)) (Fin 0) (Fin (- 3 / 2)) \<and>
   centerAndScaleModel (centerAndScaleModel cube6) = cube6 \<and>
   maxExtent (centerAndScaleModel (centerAndScaleModel cube6)) = Fin 6"
proof -
  have h1: "model.position cube6 = Vector3 (Fin 0) (Fin 0) (Fin 0)"
    by (simp add: cube6_def freshModel_def)
  have h2: "model.scale cube6 = Vector3 (Fin 1) (Fin 1) (Fin 1)"
    by (simp add: cube6_def freshModel_def)
  have e: "maxExtent cube6 = Fin 6"
    by (simp add: maxExtent_def box_cube6 getSize_def isEmpty_def js_sub_def Math_max3_def)
  then have h3: "js_lt (Fin 0) (maxExtent cube6)"
    by simp
  show ?thesis
    using h1 h2 h3 e centerAndScaleModel_twice [OF h1 h2 h3] by (simp add: once_cube6)
qed

section \<open>Properties of the material collector\<close>

lemma collectMaterials_eq:
  "collectMaterials n s = (n, fold (\<lambda>mat s. Set_add s mat) (nodeMaterials n) s)"
  by (cases "material n") (simp_all add: collectMaterials_def nodeMaterials_def)

lemma traverse_children_collect:
  assumes "\<And>c s. c \<in> set cs \<Longrightarrow>
     traverse collectMaterials c s =
       (c, fold (\<lambda>mat s. Set_add s mat) (concat (map nodeMaterials (preorder c))) s)"
  shows "traverse_children collectMaterials cs s =
       (cs, fold (\<lambda>mat s. Set_add s mat)
              (concat (map nodeMaterials (concat (map preorder cs)))) s)"
  using assms by (induction cs arbitrary: s) simp_all

lemma traverse_collect:
  "traverse collectMaterials c s =
     (c, fold (\<lambda>mat s. Set_add s mat) (concat (map nodeMaterials (preorder c))) s)"
proof (induction c arbitrary: s)
  case (Object3D n cs)
  then show ?case
    by (simp add: collectMaterials_eq [of n] traverse_children_collect)
qed

text \<open>Adding a sequence to a set appends the first occurrences that are new.\<close>

lemma fold_Set_add:
  "fold (\<lambda>a s. Set_add s a) xs s = s @ filter (\<lambda>a. a \<notin> set s) (firstOccurrences xs)"
proof (induction xs arbitrary: s)
  case Nil
  show ?case by simp
next
  case (Cons x xs)
  show ?case
  proof (cases "x \<in> set s")
    case True
    then have "filter (\<lambda>a. a \<notin> set s) (removeAll x (firstOccurrences xs))
             = filter (\<lambda>a. a \<notin> set s) (firstOccurrences xs)"
      by (auto simp: removeAll_filter_not_eq intro: filter_cong)
    moreover have "Set_add s x = s"
      using True by (simp add: Set_add_def)
    ultimately show ?thesis using True by (simp add: Cons.IH)
  next
    case False
    have "filter (\<lambda>a. a \<notin> set (s @ [x])) (firstOccurrences xs)
        = filter (\<lambda>a. a \<notin> set s) (removeAll x (firstOccurrences xs))"
      by (auto simp: removeAll_filter_not_eq intro: filter_cong)
    moreover have "Set_add s x = s @ [x]"
      using False by (simp add: Set_add_def)
    ultimately show ?thesis using False by (simp add: Cons.IH)
  qed
qed

lemma set_firstOccurrences: "set (firstOccurrences xs) = set xs"
  by (induction xs) auto

lemma distinct_firstOccurrences: "distinct (firstOccurrences xs)"
  by (induction xs) (auto simp: distinct_removeAll)

lemma getUniqueModelMaterials_eq:
  "getUniqueModelMaterials m = (firstOccurrences (referencedMaterials m), m)"
  by (simp add: getUniqueModelMaterials_def traverse_model_def traverse_children_collect
      traverse_collect fold_Set_add referencedMaterials_def nodes_def)



lemma nodes_fiveNodes:
  "nodes fiveNodes =
     [plainNode, meshNode [] (Single 7), meshNode [] Null, meshNode [] (Multi [9, 7, 4]),
      meshNode [] (Single 9)]"
  by (simp add: fiveNodes_def freshModel_def nodes_def)

lemma referenced_fiveNodes: "referencedMaterials fiveNodes = [7, 9, 7, 4, 9]"
  by (simp add: referencedMaterials_def nodes_fiveNodes nodeMaterials_def plainNode_def
      meshNode_def)

text \<open>
  Claim C8. For every model, the array \<open>getUniqueModelMaterials\<close> returns is the sequence
  of the materials referenced by the mesh nodes, taken in depth-first order (parent before
  children, children in declaration order) and cut down to first occurrences. It has no
  duplicate, its length is the number of distinct materials referenced, and the call leaves
  the model as it was.
\<close>

theorem getUniqueModelMaterials_first_occurrences:
  "fst (getUniqueModelMaterials m) = firstOccurrences (referencedMaterials m) \<and>
   distinct (fst (getUniqueModelMaterials m)) \<and>
   length (fst (getUniqueModelMaterials m)) = card (set (referencedMaterials m)) \<and>
   snd (getUniqueModelMaterials m) = m"
  using distinct_card [OF distinct_firstOccurrences, of "referencedMaterials m"]
  by (simp add: getUniqueModelMaterials_eq distinct_firstOccurrences set_firstOccurrences)

text \<open>On the model of five nodes the array is 7, 9, 4.\<close>

theorem getUniqueModelMaterials_first_occurrences_witness:
  "fst (getUniqueModelMaterials fiveNodes) = [7, 9, 4] \<and>
   distinct (fst (getUniqueModelMaterials fiveNodes)) \<and>
   length (fst (getUniqueModelMaterials fiveNodes)) = 3 \<and>
   snd (getUniqueModelMaterials fiveNodes) = fiveNodes"
proof -
  have "firstOccurrences (referencedMaterials fiveNodes) = [7, 9, 4]"
    by (simp add: referenced_fiveNodes)
  then show ?thesis
    using getUniqueModelMaterials_first_occurrences [of fiveNodes] by simp
qed



section \<open>Properties of the shadow configurator\<close>

lemma traverse_children_shadows_preorder:
  assumes "\<And>c. c \<in> set cs \<Longrightarrow>
     preorder (fst (traverse enableShadows c ()))
       = map (\<lambda>n. fst (enableShadows n ())) (preorder c)"
  shows "concat (map preorder (fst (traverse_children enableShadows cs ())))
       = map (\<lambda>n. fst (enableShadows n ())) (concat (map preorder cs))"
  using assms by (induction cs) (simp_all add: split_beta)

lemma traverse_shadows_preorder:
  "preorder (fst (traverse enableShadows c ()))
     = map (\<lambda>n. fst (enableShadows n ())) (preorder c)"
proof (induction c)
  case (Object3D n cs)
  show ?case
    using traverse_children_shadows_preorder [of cs, OF Object3D]
    by (simp add: split_beta)
qed

lemma enableShadows_twice:
  "fst (enableShadows (fst (enableShadows n ())) ()) = fst (enableShadows n ())"
  by (simp add: enableShadows_def)

lemma traverse_children_shadows_twice:
  assumes "\<And>c. c \<in> set cs \<Longrightarrow>
     fst (traverse enableShadows (fst (traverse enableShadows c ())) ())
       = fst (traverse enableShadows c ())"
  shows "fst (traverse_children enableShadows (fst (traverse_children enableShadows cs ())) ())
       = fst (traverse_children enableShadows cs ())"
  using assms
proof (induction cs)
  case Nil
  show ?case by simp
next
  case (Cons c cs)
  have "fst (traverse enableShadows (fst (traverse enableShadows c ())) ())
          = fst (traverse enableShadows c ())"
    using Cons.prems by simp
  moreover have
    "fst (traverse_children enableShadows (fst (traverse_children enableShadows cs ())) ())
       = fst (traverse_children enableShadows cs ())"
    using Cons.IH Cons.prems by simp
  ultimately show ?case by (simp add: split_beta)
qed

lemma traverse_shadows_twice:
  "fst (traverse enableShadows (fst (traverse enableShadows c ())) ())
     = fst (traverse enableShadows c ())"
proof (induction c)
  case (Object3D n cs)
  show ?case
    using traverse_children_shadows_twice [of cs, OF Object3D] enableShadows_twice [of n]
    by (simp add: split_beta)
qed

lemma nodes_enableModelShadows:
  "nodes (enableModelShadows m) = map (\<lambda>n. fst (enableShadows n ())) (nodes m)"
  using traverse_children_shadows_preorder [of "children m", OF traverse_shadows_preorder]
  by (simp add: enableModelShadows_def traverse_model_def nodes_def split_beta)

lemma traverse_children_withShadows:
  assumes "\<And>c. c \<in> set cs \<Longrightarrow> traverse enableShadows c () = (withShadows c, ())"
  shows "traverse_children enableShadows cs () = (map withShadows cs, ())"
  using assms by (induction cs) simp_all

lemma traverse_withShadows: "traverse enableShadows c () = (withShadows c, ())"
proof (induction c)
  case (Object3D n cs)
  have "enableShadows n () =
      (if isMesh n then n\<lparr>castShadow := True, receiveShadow := True\<rparr> else n, ())"
    by (simp add: enableShadows_def)
  then show ?case
    using traverse_children_withShadows [of cs, OF Object3D] by simp
qed

text \<open>
  Claim C9. For every model, \<open>enableModelShadows\<close> gives back the model with both
  shadow flags set on every mesh node of its hierarchy and nothing else changed: the nodes
  of the result, in depth-first order, are the nodes of the given model, each mesh node
  with \<open>castShadow\<close> and \<open>receiveShadow\<close> set and every other node as it was. So
  every mesh node of the result has both flags set, and a second call leaves the model as
  the first call left it.
\<close>

theorem enableModelShadows_all_meshes:
  "enableModelShadows m = m\<lparr>children := map withShadows (children m)\<rparr> \<and>
   nodes (enableModelShadows m) =
     map (\<lambda>n. if isMesh n then n\<lparr>castShadow := True, receiveShadow := True\<rparr> else n)
       (nodes m) \<and>
   (\<forall>n \<in> set (nodes (enableModelShadows m)). isMesh n \<longrightarrow> castShadow n \<and> receiveShadow n) \<and>
   enableModelShadows (enableModelShadows m) = enableModelShadows m"
proof (intro conjI)
  show "enableModelShadows m = m\<lparr>children := map withShadows (children m)\<rparr>"
    using traverse_children_withShadows [of "children m", OF traverse_withShadows]
    by (simp add: enableModelShadows_def traverse_model_def)
  show "nodes (enableModelShadows m) =
     map (\<lambda>n. if isMesh n then n\<lparr>castShadow := True, receiveShadow := True\<rparr> else n)
       (nodes m)"
    by (simp add: nodes_enableModelShadows enableShadows_def if_distrib [of fst] cong: if_cong)
  show "\<forall>n \<in> set (nodes (enableModelShadows m)). isMesh n \<longrightarrow> castShadow n \<and> receiveShadow n"
    by (auto simp: nodes_enableModelShadows enableShadows_def)
  show "enableModelShadows (enableModelShadows m) = enableModelShadows m"
    using traverse_children_shadows_twice [of "children m", OF traverse_shadows_twice]
    by (simp add: enableModelShadows_def traverse_model_def split_beta)
qed

text \<open>
  On the model of five nodes: the group is as it was, each of the four meshes has both
  flags set and keeps its material, and the second call changes nothing.
\<close>

theorem enableModelShadows_all_meshes_witness:
  "nodes (enableModelShadows fiveNodes) =
     [plainNode,
      (meshNode [] (Single 7))\<lparr>castShadow := True, receiveShadow := True\<rparr>,
      (meshNode [] Null)\<lparr>castShadow := True, receiveShadow := True\<rparr>,
      (meshNode [] (Multi [9, 7, 4]))\<lparr>castShadow := True, receiveShadow := True\<rparr>,
      (meshNode [] (Single 9))\<lparr>castShadow := True, receiveShadow := True\<rparr>] \<and>
   enableModelShadows fiveNodes =
     freshModel
       [Object3D plainNode
          [Object3D ((meshNode [] (Single 7))\<lparr>castShadow := True, receiveShadow := True\<rparr>) [],
           Object3D ((meshNode [] Null)\<lparr>castShadow := True, receiveShadow := True\<rparr>)
             [Object3D ((meshNode [] (Multi [9, 7, 4]))
                          \<lparr>castShadow := True, receiveShadow := True\<rparr>) []]],
        Object3D ((meshNode [] (Single 9))\<lparr>castShadow := True, receiveShadow := True\<rparr>) []] \<and>
   enableModelShadows (enableModelShadows fiveNodes) = enableModelShadows fiveNodes"
proof -
  have m: "isMesh (meshNode vs mat)" for vs mat
    by (simp add: meshNode_def)
  have p: "\<not> isMesh plainNode"
    by (simp add: plainNode_def)
  have c: "children fiveNodes =
      [Object3D plainNode
          [Object3D (meshNode [] (Single 7)) [],
           Object3D (meshNode [] Null) [Object3D (meshNode [] (Multi [9, 7, 4])) []]],
        Object3D (meshNode [] (Single 9)) []]"
    by (simp add: fiveNodes_def freshModel_def)
  note t = enableModelShadows_all_meshes [of fiveNodes]
  from t have e: "enableModelShadows fiveNodes
      = fiveNodes\<lparr>children := map withShadows (children fiveNodes)\<rparr>"
    by (rule conjunct1)
  from t have i: "enableModelShadows (enableModelShadows fiveNodes)
      = enableModelShadows fiveNodes"
    by blast
  have w: "map withShadows (children fiveNodes) =
      [Object3D plainNode
          [Object3D ((meshNode [] (Single 7))\<lparr>castShadow := True, receiveShadow := True\<rparr>) [],
           Object3D ((meshNode [] Null)\<lparr>castShadow := True, receiveShadow := True\<rparr>)
             [Object3D ((meshNode [] (Multi [9, 7, 4]))
                          \<lparr>castShadow := True, receiveShadow := True\<rparr>) []]],
        Object3D ((meshNode [] (Single 9))\<lparr>castShadow := True, receiveShadow := True\<rparr>) []]"
    by (simp add: c m p)
  have g2: "enableModelShadows fiveNodes =
     freshModel
       [Object3D plainNode
          [Object3D ((meshNode [] (Single 7))\<lparr>castShadow := True, receiveShadow := True\<rparr>) [],
           Object3D ((meshNode [] Null)\<lparr>castShadow := True, receiveShadow := True\<rparr>)
             [Object3D ((meshNode [] (Multi [9, 7, 4]))
                          \<lparr>castShadow := True, receiveShadow := True\<rparr>) []]],
        Object3D ((meshNode [] (Single 9))\<lparr>castShadow := True, receiveShadow := True\<rparr>) []]"
    unfolding e w by (simp add: fiveNodes_def freshModel_def)
  have g1: "nodes (enableModelShadows fiveNodes) =
     [plainNode,
      (meshNode [] (Single 7))\<lparr>castShadow := True, receiveShadow := True\<rparr>,
      (meshNode [] Null)\<lparr>castShadow := True, receiveShadow := True\<rparr>,
      (meshNode [] (Multi [9, 7, 4]))\<lparr>castShadow := True, receiveShadow := True\<rparr>,
      (meshNode [] (Single 9))\<lparr>castShadow := True, receiveShadow := True\<rparr>]"
    unfolding g2 by (simp add: nodes_def freshModel_def)
  from g1 g2 i show ?thesis by (intro conjI)
qed

section \<open>Properties of the camera\<close>

text \<open>
  Claim C4, as the code has it. \<open>initCamera\<close> has no failing branch. For every mount
  node of height zero it returns a camera with the field of view 75, the clip planes 0.1
  and 1000 and the position (5, 3, 5), whose aspect is \<open>Infinity\<close> when the width is
  positive and \<open>NaN\<close> when the width is zero. The height of a mount node is never
  negative.
\<close>

theorem initCamera_zero_height:
  assumes "clientHeight mountNode = 0"
  shows "initCamera mountNode =
           \<lparr>fov = Fin 75,
            aspect = (if 0 < clientWidth mountNode then PInf else NaN),
            near = Fin (1 / 10), far = Fin 1000,
            position = Vector3 (Fin 5) (Fin 3) (Fin 5)\<rparr>"
  using assms by (simp add: initCamera_def)

theorem initCamera_zero_height_witness:
  "clientHeight \<lparr>clientWidth = 0, clientHeight = 0\<rparr> = 0 \<and>
   initCamera \<lparr>clientWidth = 0, clientHeight = 0\<rparr> =
     \<lparr>fov = Fin 75, aspect = NaN, near = Fin (1 / 10), far = Fin 1000,
      position = Vector3 (Fin 5) (Fin 3) (Fin 5)\<rparr>"
proof -
  have h: "clientHeight \<lparr>clientWidth = 0, clientHeight = 0\<rparr> = 0"
    by simp
  show ?thesis
    using h initCamera_zero_height [OF h] by simp
qed

text \<open>
  Claim C4 as stated fails: for a mount node 800 wide and 0 high the call returns a camera,
  and its aspect is \<open>Infinity\<close>.
\<close>

theorem initCamera_zero_height_counterexample:
  "aspect (initCamera \<lparr>clientWidth = 800, clientHeight = 0\<rparr>) = PInf"
  by (simp add: initCamera_def)

section \<open>Properties of the loaders\<close>

lemmas loader_defs =
  setupEnvironment_def setupEnvironment_begin_def setupEnvironment_resume_def
  setSceneEnvironment_def URL_createObjectURL_def URL_revokeObjectURL_def isString_def
  handles_def Let_def

lemma blobURL_nonempty: "blobURL k \<noteq> []"
  by (simp add: blobURL_def)

lemma blobURL_inj: "blobURL j = blobURL k \<longleftrightarrow> j = k"
proof
  assume "blobURL j = blobURL k"
  then have "length (blobURL j) = length (blobURL k)" by simp
  then show "j = k" by (simp add: blobURL_def)
qed simp

text \<open>
  Claim C5. Whenever the loader rejects, \<open>setupEnvironment\<close> rejects with the same error,
  and the scene, with its environment, background and blurriness, is as before the call.
\<close>

theorem setupEnvironment_failure_leaves_scene:
  assumes "loadAsync (fst (setupEnvironment_begin arg st)) = Inl err"
  shows "fst (setupEnvironment arg blurriness useSkybox loadAsync st) = Inl err \<and>
         scene (snd (setupEnvironment arg blurriness useSkybox loadAsync st)) = scene st"
  using assms
  by (cases arg) (simp_all add: loader_defs blobURL_nonempty)

text \<open>A file the loader rejects, on a scene that shows an environment.\<close>

theorem setupEnvironment_failure_leaves_scene_witness:
  "corruptHDR (fst (setupEnvironment_begin (FileObject 1) litBrowser))
     = Inl (Error ''corrupt'') \<and>
   fst (setupEnvironment (FileObject 1) (Fin 1) True corruptHDR litBrowser)
     = Inl (Error ''corrupt'') \<and>
   scene (snd (setupEnvironment (FileObject 1) (Fin 1) True corruptHDR litBrowser)) = litScene"
proof -
  have h: "corruptHDR (fst (setupEnvironment_begin (FileObject 1) litBrowser))
     = Inl (Error ''corrupt'')"
    by (simp add: corruptHDR_def)
  show ?thesis
    using h setupEnvironment_failure_leaves_scene
      [of corruptHDR "FileObject 1" litBrowser "Error ''corrupt''" "Fin 1" True, OF h]
    by (simp add: litBrowser_def)
qed

text \<open>
  Claim C6. Whatever the loader does, \<open>loadGLTFModel\<close> creates one object URL and
  revokes that URL once; \<open>setupEnvironment\<close> does the same when given a \<open>File\<close>, and
  creates and revokes nothing when given a string.
\<close>

theorem object_url_released_once:
  "created (snd (loadGLTFModel f loadGLTF st)) = created st @ [blobURL (length (created st))] \<and>
   revoked (snd (loadGLTFModel f loadGLTF st)) = revoked st @ [blobURL (length (created st))] \<and>
   created (snd (setupEnvironment (FileObject f) blurriness useSkybox loadHDR st))
     = created st @ [blobURL (length (created st))] \<and>
   revoked (snd (setupEnvironment (FileObject f) blurriness useSkybox loadHDR st))
     = revoked st @ [blobURL (length (created st))] \<and>
   created (snd (setupEnvironment (UrlString u) blurriness useSkybox loadHDR st)) = created st \<and>
   revoked (snd (setupEnvironment (UrlString u) blurriness useSkybox loadHDR st)) = revoked st"
  by (simp add: loadGLTFModel_def loader_defs blobURL_nonempty split: sum.splits prod.splits)

text \<open>A model that decodes, a file the HDR loader rejects and a URL it accepts.\<close>

theorem object_url_released_once_witness:
  "created (snd (loadGLTFModel 1 (\<lambda>url. Inr cube6) litBrowser)) = [''blob:''] \<and>
   revoked (snd (loadGLTFModel 1 (\<lambda>url. Inr cube6) litBrowser)) = [''blob:''] \<and>
   created (snd (setupEnvironment (FileObject 1) (Fin 1) True corruptHDR litBrowser))
     = [''blob:''] \<and>
   revoked (snd (setupEnvironment (FileObject 1) (Fin 1) True corruptHDR litBrowser))
     = [''blob:''] \<and>
   created (snd (setupEnvironment (UrlString ''studio.hdr'') (Fin 1) True corruptHDR
              litBrowser)) = [] \<and>
   revoked (snd (setupEnvironment (UrlString ''studio.hdr'') (Fin 1) True corruptHDR
              litBrowser)) = []"
  using object_url_released_once
    [of 1 "\<lambda>url. Inr cube6" litBrowser "Fin 1" True corruptHDR "''studio.hdr''"]
  by (simp add: litBrowser_def blobURL_def)

text \<open>
  Claim C7, as the code has it. Take two loads on the same scene, the second called while
  the first waits for its loader, and let both loaders resolve. Once both have settled, the
  environment of the scene is the texture of the load whose loader resolved last:
  that of the first load if its loader resolves after the second one's. In either order and
  whatever the loaders settle with, each load has revoked the URL it created, once, and the
  two URLs differ.
\<close>

theorem two_loads_last_settled_wins:
  "environment (scene (state (run [Call 0 a ba sa, Call 1 b bb sb,
                                   Settle 1 (Inr tb), Settle 0 (Inr ta)] (idle st))))
     = Some (ta\<lparr>mapping := EquirectangularReflectionMapping\<rparr>) \<and>
   environment (scene (state (run [Call 0 a ba sa, Call 1 b bb sb,
                                   Settle 0 (Inr ta), Settle 1 (Inr tb)] (idle st))))
     = Some (tb\<lparr>mapping := EquirectangularReflectionMapping\<rparr>) \<and>
   created (state (run [Call 0 a ba sa, Call 1 b bb sb, Settle 1 rb, Settle 0 ra] (idle st)))
     = created st @ handles a (firstURL a st) @ handles b (secondURL a b st) \<and>
   revoked (state (run [Call 0 a ba sa, Call 1 b bb sb, Settle 1 rb, Settle 0 ra] (idle st)))
     = revoked st @ handles b (secondURL a b st) @ handles a (firstURL a st) \<and>
   created (state (run [Call 0 a ba sa, Call 1 b bb sb, Settle 0 ra, Settle 1 rb] (idle st)))
     = created st @ handles a (firstURL a st) @ handles b (secondURL a b st) \<and>
   revoked (state (run [Call 0 a ba sa, Call 1 b bb sb, Settle 0 ra, Settle 1 rb] (idle st)))
     = revoked st @ handles a (firstURL a st) @ handles b (secondURL a b st) \<and>
   distinct (handles a (firstURL a st) @ handles b (secondURL a b st))"
  by (cases a; cases b; cases ra; cases rb)
     (simp_all add: run_def step_def idle_def loader_defs firstURL_def secondURL_def
        blobURL_nonempty blobURL_inj)

text \<open>Two files, of the images 1 and 2, on the scene that shows the image 5.\<close>

theorem two_loads_last_settled_wins_witness:
  "environment (scene (state (run [Call 0 (FileObject 1) (Fin 0) True,
        Call 1 (FileObject 2) (Fin 0) True,
        Settle 0 (Inr \<lparr>image_id = 1, mapping = UVMapping\<rparr>),
        Settle 1 (Inr \<lparr>image_id = 2, mapping = UVMapping\<rparr>)] (idle litBrowser))))
     = Some \<lparr>image_id = 2, mapping = EquirectangularReflectionMapping\<rparr> \<and>
   revoked (state (run [Call 0 (FileObject 1) (Fin 0) True,
        Call 1 (FileObject 2) (Fin 0) True,
        Settle 0 (Inr \<lparr>image_id = 1, mapping = UVMapping\<rparr>),
        Settle 1 (Inr \<lparr>image_id = 2, mapping = UVMapping\<rparr>)] (idle litBrowser)))
     = [''blob:'', ''blob:u'']"
  using two_loads_last_settled_wins
    [of "FileObject 1" "Fin 0" True "FileObject 2" "Fin 0" True
        "\<lparr>image_id = 2, mapping = UVMapping\<rparr>" "\<lparr>image_id = 1, mapping = UVMapping\<rparr>"
        litBrowser "Inr \<lparr>image_id = 2, mapping = UVMapping\<rparr>"
        "Inr \<lparr>image_id = 1, mapping = UVMapping\<rparr>"]
  by (simp add: firstURL_def secondURL_def loader_defs litBrowser_def blobURL_def)

text \<open>
  Claim C7 as stated fails: when the loader of the second load resolves first, both loads
  have settled and the environment of the scene is the image of the first load.
\<close>

theorem stale_environment_counterexample:
  "environment (scene (state (run [Call 0 (FileObject 1) (Fin 0) True,
        Call 1 (FileObject 2) (Fin 0) True,
        Settle 1 (Inr \<lparr>image_id = 2, mapping = UVMapping\<rparr>),
        Settle 0 (Inr \<lparr>image_id = 1, mapping = UVMapping\<rparr>)] (idle litBrowser))))
     = Some \<lparr>image_id = 1, mapping = EquirectangularReflectionMapping\<rparr> \<and>
   in_flight (run [Call 0 (FileObject 1) (Fin 0) True,
        Call 1 (FileObject 2) (Fin 0) True,
        Settle 1 (Inr \<lparr>image_id = 2, mapping = UVMapping\<rparr>),
        Settle 0 (Inr \<lparr>image_id = 1, mapping = UVMapping\<rparr>)] (idle litBrowser))
     = (\<lambda>i. None)"
  by (auto simp add: run_def step_def idle_def loader_defs litBrowser_def blobURL_def fun_eq_iff)

end
